theory Spec2Isabelle
  imports Complex_Main "HOL-Library.AList"
begin

section \<open>Input documents and validated values\<close>

text \<open>
  core.py and crystallography.py declare pydantic models: classes whose annotated
  attributes are fields, each with a type, a default and constraints. What such a
  declaration does is the behaviour of pydantic, version 2 (the export calls its
  \<^verbatim>\<open>model_json_schema\<close>): a construction validates its arguments field by field and
  reports every error it finds; a default is stored without being validated; an argument
  that is no field is ignored; an assignment to a frozen field is refused. This theory
  states that behaviour as functions over the field tables of the two modules and proves
  properties of the tables, of construction and serialisation, and of the export loop.

  The arguments of a constructor and a parsed JSON document are values of type \<open>json\<close>;
  an object is an association list, whose keys are distinct in a document that Python
  can hold. A float is the real number it denotes, so there is no infinity and no NaN. An
  int is accepted where a float is declared, and a float without a fractional part where
  an int is declared; the further conversions of pydantic, from strings and booleans to
  numbers, are left out, and such input is a type error here.

  A validated value is a \<open>pyval\<close>. A member of an enumeration carries its name and its
  value, a datetime and a UUID their canonical text, an instance of a model its class name
  and its fields in the order of declaration.
\<close>

datatype json =
    JNull
  | JBool bool
  | JInt int
  | JNum real
  | JStr string
  | JArr "json list"
  | JObj "(string \<times> json) list"

datatype pyval =
    VNone
  | VBool bool
  | VInt int
  | VFloat real
  | VStr string
  | VEnum string string
  | VDatetime string
  | VUuid string
  | VList "pyval list"
  | VTuple "pyval list"
  | VDict "(string \<times> pyval) list"
  | VModel string "(string \<times> pyval) list"

text \<open>
  An error is a location, the path of keys and indices from the validated value to the
  place of the error, and a kind.
\<close>

datatype loc_item = LKey string | LIdx nat

type_synonym loc = "loc_item list"

datatype err_type =
    Missing
  | StringType
  | IntType
  | IntFromFloat
  | FloatType
  | BoolType
  | DatetimeType
  | UuidType
  | ListType
  | TupleType
  | TupleLength
  | DictType
  | ModelType
  | LiteralError
  | EnumError
  | LessThanEqual
  | GreaterThanEqual
  | GreaterThan
  | UnionTagNotFound
  | UnionTagInvalid
  | ClassNotFullyDefined
  | FrozenField
  | NoSuchField

type_synonym error = "loc \<times> err_type"

type_synonym 'a result = "error list + 'a"

section \<open>Field declarations\<close>

text \<open>
  The types that the annotations of the two modules use. \<open>TModel c\<close> is the class named
  \<open>c\<close>, looked up when a value is validated, so that classes can mention each other.
  \<open>TUnion\<close> is a plain union, \<open>TDisc d ns\<close> a union of the classes named in \<open>ns\<close> that is
  resolved by the field \<open>d\<close> of the input.
\<close>

datatype ftype =
    TAny
  | TStr
  | TInt
  | TFloat
  | TBool
  | TDatetime
  | TUuid
  | TLiteral string
  | TEnum "(string \<times> string) list"
  | TOptional ftype
  | TList ftype
  | TTuple "ftype list"
  | TDict ftype
  | TModel string
  | TUnion "ftype list"
  | TDisc string "string list"

datatype factory = Factory_list | Factory_dict | Factory_uuid4_hex

datatype dflt = Required | Default pyval | DefaultFactory factory

record field =
  fname :: string
  ftype :: ftype
  fdefault :: dflt
  frozen :: bool
  le :: "real option"
  ge :: "real option"
  gt :: "real option"


text \<open>
  A name is bound to a class, given by its fields, or to a union of names.
\<close>

datatype tdef = Class "field list" | Alias "string list"

type_synonym env = "(string \<times> tdef) list"

text \<open>
  What the standard library supplies: the random identifier of \<^verbatim>\<open>uuid.uuid4().hex\<close>,
  one for each place where a default is generated, and the parsers of datetimes and of
  UUIDs, which return the canonical text of the value they read.
\<close>

record pylib =
  uuid4_hex :: "loc \<Rightarrow> string"
  parse_datetime :: "json \<Rightarrow> string option"
  parse_uuid :: "json \<Rightarrow> string option"

section \<open>Validation\<close>

text \<open>
  \<open>collect\<close> joins the results of the parts of a value: all valid, or all the errors.
\<close>

fun of_json :: "json \<Rightarrow> pyval" where
  "of_json JNull = VNone"
| "of_json (JBool b) = VBool b"
| "of_json (JInt n) = VInt n"
| "of_json (JNum x) = VFloat x"
| "of_json (JStr s) = VStr s"
| "of_json (JArr js) = VList (map of_json js)"
| "of_json (JObj kvs) = VDict (map (\<lambda>(k, x). (k, of_json x)) kvs)"

fun collect :: "'a result list \<Rightarrow> 'a list result" where
  "collect [] = Inr []"
| "collect (r # rs) =
     (case r of
        Inl e \<Rightarrow> (case collect rs of Inl es \<Rightarrow> Inl (e @ es) | Inr _ \<Rightarrow> Inl e)
      | Inr v \<Rightarrow> (case collect rs of Inl es \<Rightarrow> Inl es | Inr vs \<Rightarrow> Inr (v # vs)))"

text \<open>
  The bounds \<^verbatim>\<open>le\<close>, \<^verbatim>\<open>ge\<close> and \<^verbatim>\<open>gt\<close> apply to a number, in this order, and the
  first that fails is reported; \<open>None\<close> in an optional field has no bounds to meet.
\<close>

definition number_of :: "pyval \<Rightarrow> real option" where
  "number_of v = (case v of VInt n \<Rightarrow> Some (of_int n) | VFloat x \<Rightarrow> Some x | _ \<Rightarrow> None)"

definition violates :: "real option \<Rightarrow> (real \<Rightarrow> bool) \<Rightarrow> bool" where
  "violates bound ok = (case bound of None \<Rightarrow> False | Some b \<Rightarrow> \<not> ok b)"

definition check_bounds :: "field \<Rightarrow> loc \<Rightarrow> pyval \<Rightarrow> pyval result" where
  "check_bounds f loc v =
     (case number_of v of
        None \<Rightarrow> Inr v
      | Some x \<Rightarrow>
          if violates (le f) (\<lambda>b. x \<le> b) then Inl [(loc, LessThanEqual)]
          else if violates (ge f) (\<lambda>b. b \<le> x) then Inl [(loc, GreaterThanEqual)]
          else if violates (gt f) (\<lambda>b. b < x) then Inl [(loc, GreaterThan)]
          else Inr v)"

text \<open>
  A field that the arguments leave out takes its default as it is, or is reported missing.
\<close>

definition run_factory :: "pylib \<Rightarrow> loc \<Rightarrow> factory \<Rightarrow> pyval" where
  "run_factory lib loc fac =
     (case fac of
        Factory_list \<Rightarrow> VList []
      | Factory_dict \<Rightarrow> VDict []
      | Factory_uuid4_hex \<Rightarrow> VStr (uuid4_hex lib loc))"

definition use_default :: "pylib \<Rightarrow> loc \<Rightarrow> field \<Rightarrow> pyval result" where
  "use_default lib loc f =
     (case fdefault f of
        Required \<Rightarrow> Inl [(loc, Missing)]
      | Default v \<Rightarrow> Inr v
      | DefaultFactory fac \<Rightarrow> Inr (run_factory lib loc fac))"

text \<open>
  The tags of a discriminated union: each member class contributes the literal that its
  discriminator field is declared with.
\<close>

definition literal_of :: "env \<Rightarrow> string \<Rightarrow> string \<Rightarrow> string option" where
  "literal_of env d c =
     (case map_of env c of
        Some (Class flds) \<Rightarrow>
          (case find (\<lambda>f. fname f = d) flds of
             Some f \<Rightarrow> (case ftype f of TLiteral s \<Rightarrow> Some s | _ \<Rightarrow> None)
           | None \<Rightarrow> None)
      | _ \<Rightarrow> None)"

definition literal_tag :: "env \<Rightarrow> string \<Rightarrow> string \<Rightarrow> (string \<times> string) list" where
  "literal_tag env d c = (case literal_of env d c of Some s \<Rightarrow> [(s, c)] | None \<Rightarrow> [])"

definition members :: "env \<Rightarrow> string \<Rightarrow> string list" where
  "members env n = (case map_of env n of Some (Alias ns) \<Rightarrow> ns | _ \<Rightarrow> [n])"

definition tag_table :: "env \<Rightarrow> string \<Rightarrow> string list \<Rightarrow> (string \<times> string) list" where
  "tag_table env d ns = concat (map (literal_tag env d) (concat (map (members env) ns)))"

text \<open>
  A plain union takes the first member that accepts the value; the unions of the two
  modules have members that exclude each other.
\<close>

fun first_success :: "'a result list \<Rightarrow> 'a result" where
  "first_success [] = Inl []"
| "first_success (r # rs) =
     (case r of
        Inr v \<Rightarrow> Inr v
      | Inl e \<Rightarrow> (case first_success rs of Inr v \<Rightarrow> Inr v | Inl es \<Rightarrow> Inl (e @ es)))"

fun tsize :: "ftype \<Rightarrow> nat" where
  "tsize (TOptional t) = Suc (tsize t)"
| "tsize (TUnion ts) = Suc (sum_list (map tsize ts))"
| "tsize (TDisc d ns) = Suc 0"
| "tsize _ = 0"

text \<open>
  Validation of a value against a type, at a location. A model takes its fields in the
  order of declaration: a supplied value is validated against the field's type and then
  against its bounds, and keys that name no field are passed over.
\<close>

function validate :: "env \<Rightarrow> pylib \<Rightarrow> loc \<Rightarrow> ftype \<Rightarrow> json \<Rightarrow> pyval result" where
  "validate env lib loc TAny j = Inr (of_json j)"
| "validate env lib loc TStr j =
     (case j of JStr s \<Rightarrow> Inr (VStr s) | _ \<Rightarrow> Inl [(loc, StringType)])"
| "validate env lib loc TInt j =
     (case j of
        JInt n \<Rightarrow> Inr (VInt n)
      | JNum x \<Rightarrow> if x = of_int \<lfloor>x\<rfloor> then Inr (VInt \<lfloor>x\<rfloor>) else Inl [(loc, IntFromFloat)]
      | _ \<Rightarrow> Inl [(loc, IntType)])"
| "validate env lib loc TFloat j =
     (case j of
        JInt n \<Rightarrow> Inr (VFloat (of_int n))
      | JNum x \<Rightarrow> Inr (VFloat x)
      | _ \<Rightarrow> Inl [(loc, FloatType)])"
| "validate env lib loc TBool j =
     (case j of JBool b \<Rightarrow> Inr (VBool b) | _ \<Rightarrow> Inl [(loc, BoolType)])"
| "validate env lib loc TDatetime j =
     (case parse_datetime lib j of
        Some d \<Rightarrow> Inr (VDatetime d)
      | None \<Rightarrow> Inl [(loc, DatetimeType)])"
| "validate env lib loc TUuid j =
     (case parse_uuid lib j of
        Some u \<Rightarrow> Inr (VUuid u)
      | None \<Rightarrow> Inl [(loc, UuidType)])"
| "validate env lib loc (TLiteral s) j =
     (if j = JStr s then Inr (VStr s) else Inl [(loc, LiteralError)])"
| "validate env lib loc (TEnum ms) j =
     (case j of
        JStr s \<Rightarrow>
          (case find (\<lambda>m. snd m = s) ms of
             Some m \<Rightarrow> Inr (VEnum (fst m) s)
           | None \<Rightarrow> Inl [(loc, EnumError)])
      | _ \<Rightarrow> Inl [(loc, EnumError)])"
| "validate env lib loc (TOptional t) j =
     (if j = JNull then Inr VNone else validate env lib loc t j)"
| "validate env lib loc (TList t) j =
     (case j of
        JArr js \<Rightarrow>
          map_sum id VList
            (collect (map (\<lambda>(i, x). validate env lib (loc @ [LIdx i]) t x) (enumerate 0 js)))
      | _ \<Rightarrow> Inl [(loc, ListType)])"
| "validate env lib loc (TTuple ts) j =
     (case j of
        JArr js \<Rightarrow>
          if length js \<noteq> length ts then Inl [(loc, TupleLength)]
          else map_sum id VTuple
            (collect (map (\<lambda>(i, t, x). validate env lib (loc @ [LIdx i]) t x)
               (enumerate 0 (zip ts js))))
      | _ \<Rightarrow> Inl [(loc, TupleType)])"
| "validate env lib loc (TDict t) j =
     (case j of
        JObj kvs \<Rightarrow>
          map_sum id VDict
            (collect (map (\<lambda>(k, x). map_sum id (Pair k) (validate env lib (loc @ [LKey k]) t x)) kvs))
      | _ \<Rightarrow> Inl [(loc, DictType)])"
| "validate env lib loc (TModel c) j =
     (case j of
        JObj kvs \<Rightarrow>
          (case map_of env c of
             Some (Class flds) \<Rightarrow>
               map_sum id (VModel c)
                 (collect (map (\<lambda>f.
                    map_sum id (Pair (fname f))
                      (case map_of kvs (fname f) of
                         None \<Rightarrow> use_default lib (loc @ [LKey (fname f)]) f
                       | Some x \<Rightarrow>
                           (case validate env lib (loc @ [LKey (fname f)]) (ftype f) x of
                              Inl e \<Rightarrow> Inl e
                            | Inr v \<Rightarrow> check_bounds f (loc @ [LKey (fname f)]) v))) flds))
           | _ \<Rightarrow> Inl [(loc, ClassNotFullyDefined)])
      | _ \<Rightarrow> Inl [(loc, ModelType)])"
| "validate env lib loc (TUnion ts) j =
     (if ts = [] then Inl [(loc, ClassNotFullyDefined)]
      else first_success (map (\<lambda>t. validate env lib loc t j) ts))"
| "validate env lib loc (TDisc d ns) j =
     (case j of
        JObj kvs \<Rightarrow>
          (case map_of kvs d of
             None \<Rightarrow> Inl [(loc, UnionTagNotFound)]
           | Some (JStr tag) \<Rightarrow>
               (case map_of (tag_table env d ns) tag of
                  None \<Rightarrow> Inl [(loc, UnionTagInvalid)]
                | Some c \<Rightarrow> validate env lib (loc @ [LKey tag]) (TModel c) j)
           | Some _ \<Rightarrow> Inl [(loc, UnionTagInvalid)])
      | _ \<Rightarrow> Inl [(loc, ModelType)])"
  by pat_completeness auto

lemma size_json_member: "x \<in> set js \<Longrightarrow> size x < Suc (size_list size js)"
  by (induction js) auto

lemma size_json_value: "(k, x) \<in> set kvs \<Longrightarrow> size x < Suc (size_list (size_prod (\<lambda>_. 0) size) kvs)"
  by (induction kvs) auto

lemma tsize_member: "t \<in> set ts \<Longrightarrow> tsize t < Suc (sum_list (map tsize ts))"
  by (induction ts) auto

termination validate
proof (relation "measures [\<lambda>(env, lib, loc, t, j). size j, \<lambda>(env, lib, loc, t, j). tsize t]",
    goal_cases)
  case 1
  show ?case by simp
next
  case (2 env lib loc t j)
  then show ?case by simp
next
  case (3 env lib loc t j js ix i x)
  then have "x \<in> set js" by (auto simp: in_set_enumerate_eq)
  then show ?case using 3 by (simp add: size_json_member)
next
  case (4 env lib loc ts j js itx i tx t x)
  then have "x \<in> set js" by (auto simp: in_set_enumerate_eq)
  then show ?case using 4 by (auto simp: size_json_member)
next
  case (5 env lib loc t j kvs kx k x)
  then show ?case by (auto simp: size_json_value)
next
  case (6 env lib loc c j kvs td flds f x)
  then have "(fname f, x) \<in> set kvs" by (auto dest: map_of_SomeD)
  then show ?case using 6 by (auto simp: size_json_value)
next
  case (7 env lib loc ts j t)
  then show ?case by (simp add: tsize_member)
next
  case (8 env lib loc d ns j kvs a tag c)
  then show ?case by simp
qed

section \<open>The declarations of core.py and crystallography.py\<close>

text \<open>
  A field declared by annotation alone, or with \<^verbatim>\<open>Field(...)\<close>, starts from these
  settings; the keyword arguments \<^verbatim>\<open>frozen\<close>, \<^verbatim>\<open>ge\<close>, \<^verbatim>\<open>le\<close> and
  \<^verbatim>\<open>gt\<close> update them. A discriminator given for a list-valued field is read as
  tagging the union of the list's items.
\<close>

definition Field :: "string \<Rightarrow> ftype \<Rightarrow> dflt \<Rightarrow> field" where
  "Field n t d =
     \<lparr>fname = n, ftype = t, fdefault = d, frozen = False, le = None, ge = None, gt = None\<rparr>"

text \<open>
  A subclass takes over the fields of its base class in their order; a field it declares
  again replaces the inherited one in place, and its new fields follow.
\<close>

definition inherit :: "field list \<Rightarrow> field list \<Rightarrow> field list" where
  "inherit base own =
     map (\<lambda>b. case find (\<lambda>f. fname f = fname b) own of Some f \<Rightarrow> f | None \<Rightarrow> b) base
     @ filter (\<lambda>f. fname f \<notin> set (map fname base)) own"

definition BaseModel :: "field list" where
  "BaseModel = []"

definition JobStatus :: "(string \<times> string) list" where
  "JobStatus =
    [(''Template'', ''Template''),
     (''Ready'', ''Ready''),
     (''Running'', ''Running''),
     (''Completed'', ''Completed''),
     (''Failed'', ([CHR 0x09] @ ''Failed'')),
     (''Aborted'', ''Aborted'')]"

definition MxlimsObject :: "field list" where
  "MxlimsObject =
    [(Field ''uuid'' TStr (DefaultFactory Factory_uuid4_hex))\<lparr>frozen := True\<rparr>,
     Field ''extensions'' (TDict TAny) (DefaultFactory Factory_dict),
     Field ''namespace_extensions'' (TDict (TModel ''BaseModel'')) (DefaultFactory Factory_dict)]"

definition Dataset :: "field list" where
  "Dataset = inherit MxlimsObject
    [(Field ''source'' (TOptional (TModel ''Job'')) (Default VNone))\<lparr>frozen := True\<rparr>,
     (Field ''role'' (TOptional TStr) (Default VNone))\<lparr>frozen := True\<rparr>,
     (Field ''logistical_sample'' (TOptional (TModel ''LogisticalSample'')) (Default VNone))\<lparr>frozen := True\<rparr>,
     (Field ''derived_from_id'' (TOptional TUuid) (Default VNone))\<lparr>frozen := True\<rparr>]"

definition Job :: "field list" where
  "Job = inherit MxlimsObject
    [(Field ''sample'' (TOptional (TModel ''PreparedSample'')) (Default VNone))\<lparr>frozen := True\<rparr>,
     (Field ''logistical_sample'' (TOptional (TModel ''LogisticalSample'')) (Default VNone))\<lparr>frozen := True\<rparr>,
     Field ''templates'' (TList (TModel ''Dataset'')) (DefaultFactory Factory_list),
     Field ''input_data'' (TList (TModel ''Dataset'')) (DefaultFactory Factory_list),
     Field ''reference_data'' (TList (TModel ''Dataset'')) (DefaultFactory Factory_list),
     Field ''results'' (TList (TModel ''Dataset'')) (DefaultFactory Factory_list),
     Field ''start_time'' (TOptional TDatetime) (Default VNone),
     Field ''end_time'' (TOptional TDatetime) (Default VNone),
     Field ''job_status'' (TOptional (TEnum JobStatus)) (Default VNone)]"

definition LogisticalSample :: "field list" where
  "LogisticalSample = inherit MxlimsObject
    [Field ''sample'' (TOptional (TModel ''PreparedSample'')) (Default VNone),
     Field ''container'' (TOptional (TModel ''LogisticalSample'')) (Default VNone),
     Field ''contents'' (TList (TModel ''LogisticalSample'')) (DefaultFactory Factory_list),
     Field ''jobs'' (TList (TModel ''Job'')) (DefaultFactory Factory_list),
     Field ''datasets'' (TList (TModel ''Dataset'')) (DefaultFactory Factory_list)]"

definition PreparedSample :: "field list" where
  "PreparedSample = inherit MxlimsObject
    [Field ''logistical_samples'' (TList (TModel ''LogisticalSample'')) (DefaultFactory Factory_list),
     Field ''jobs'' (TList (TModel ''Job'')) (DefaultFactory Factory_list)]"

definition PdbxSignalType :: "(string \<times> string) list" where
  "PdbxSignalType =
    [(''I_over_sigma'', ''local <I/sigmaI>''),
     (''wCC_half'', ''local wCC_half'')]"

definition QualityFactorType :: "(string \<times> string) list" where
  "QualityFactorType =
    [(''R_merge'', ''R(merge)''),
     (''R_meas'', ''R(meas)''),
     (''R_pim'', ''R(pim)''),
     (''I_over_SigI'', ''I/SigI''),
     (''CC_half'', ''CC(1/2)''),
     (''CC_ano'', ''CC(ano)''),
     (''SigAno'', ''SigAno''),
     (''Completeness'', ''Completeness''),
     (''Redundancy'', ''Redundancy'')]"

definition ReflectionBinningMode :: "(string \<times> string) list" where
  "ReflectionBinningMode =
    [(''equal_volume'', ''equal_volume''),
     (''equal_number'', ''equal_number''),
     (''dstar_equidistant'', ''dstar_equidistant''),
     (''dstar2_equidistant'', ''dstar2_equidistant'')]"

definition UnitCell :: "field list" where
  "UnitCell =
    [(Field ''a'' TFloat Required)\<lparr>frozen := True\<rparr>,
     (Field ''b'' TFloat Required)\<lparr>frozen := True\<rparr>,
     (Field ''c'' TFloat Required)\<lparr>frozen := True\<rparr>,
     (Field ''alpha'' TFloat Required)\<lparr>frozen := True\<rparr>,
     (Field ''beta'' TFloat Required)\<lparr>frozen := True\<rparr>,
     (Field ''gamma'' TFloat Required)\<lparr>frozen := True\<rparr>]"

definition Tensor :: "field list" where
  "Tensor =
    [Field ''eigenvalues'' (TTuple [TFloat, TFloat, TFloat]) Required,
     Field ''eigenvectors'' (TList (TTuple [TFloat, TFloat, TFloat])) Required]"

definition QualityFactor :: "field list" where
  "QualityFactor =
    [Field ''type'' (TEnum QualityFactorType) Required,
     Field ''value'' TFloat Required]"

definition Macromolecule :: "field list" where
  "Macromolecule =
    [Field ''acronym'' TStr Required,
     Field ''name'' (TOptional TStr) (Default VNone),
     Field ''identifiers'' (TDict TStr) (DefaultFactory Factory_dict)]"

definition Component :: "field list" where
  "Component =
    [Field ''acronym'' TStr Required,
     Field ''name'' (TOptional TStr) (Default VNone),
     Field ''identifiers'' (TDict TStr) (DefaultFactory Factory_dict)]"

definition MXExperiment :: "field list" where
  "MXExperiment = inherit Job
    [Field ''mxlims_type'' (TLiteral ''MXExperiment'') Required,
     Field ''experiment_strategy'' TStr (Default VNone),
     Field ''expected_resolution'' (TOptional TFloat) (Default VNone),
     Field ''target_completeness'' (TOptional TFloat) (Default VNone),
     Field ''target_multiplicity'' (TOptional TFloat) (Default VNone),
     Field ''dose_budget'' (TOptional TFloat) (Default VNone),
     Field ''snapshot_count'' (TOptional TInt) (Default VNone),
     Field ''wedge_width'' (TOptional TFloat) (Default VNone),
     Field ''measured_flux'' (TOptional TFloat) (Default VNone),
     Field ''radiation_dose'' (TOptional TFloat) (Default VNone),
     Field ''unit_cell'' (TOptional (TModel ''UnitCell'')) (Default VNone),
     Field ''space_group_name'' (TOptional TStr) (Default VNone),
     (Field ''sample'' (TOptional (TModel ''MXSample'')) (Default VNone))\<lparr>frozen := True\<rparr>,
     Field ''templates'' (TList (TDisc ''mxlims_type'' [''CollectionSweep'', ''MxlimsReference''])) (DefaultFactory Factory_list),
     Field ''reference_data'' (TList (TDisc ''mxlims_type'' [''ReflectionSet'', ''MxlimsReference''])) (DefaultFactory Factory_list),
     Field ''results'' (TList (TDisc ''mxlims_type'' [''CollectionSweep'', ''MxlimsReference''])) (DefaultFactory Factory_list)]"

definition MXExperimentRef :: "field list" where
  "MXExperimentRef =
    [Field ''target_type'' (TLiteral ''MXExperiment'') Required]"

definition CollectionSweep :: "field list" where
  "CollectionSweep = inherit Dataset
    [Field ''mxlims_type'' (TLiteral ''CollectionSweep'') Required,
     Field ''annotation'' (TOptional TStr) (Default VNone),
     Field ''exposure_time'' (TOptional TFloat) (Default VNone),
     Field ''image_width'' (TOptional TFloat) (Default VNone),
     Field ''energy'' (TOptional TFloat) (Default VNone),
     (Field ''transmission'' (TOptional TFloat) (Default VNone))\<lparr>ge := Some 0, le := Some 100\<rparr>,
     Field ''detector_type'' (TOptional TStr) (Default VNone),
     Field ''detector_binning_mode'' (TOptional TStr) (Default VNone),
     Field ''detector_roi_mode'' (TOptional TStr) (Default VNone),
     Field ''beam_position'' (TOptional (TTuple [TFloat, TFloat])) (Default VNone),
     Field ''beam_size'' (TOptional (TTuple [TFloat, TFloat])) (Default VNone),
     Field ''beam_shape'' (TOptional TStr) (Default VNone),
     Field ''axis_positions_start'' (TDict TFloat) (DefaultFactory Factory_dict),
     Field ''axis_positions_end'' (TDict TFloat) (DefaultFactory Factory_dict),
     Field ''scan_axis'' TStr Required,
     Field ''overlap'' (TOptional TFloat) (Default VNone),
     Field ''num_triggers'' (TOptional TInt) (Default VNone),
     Field ''num_images_per_trigger'' (TOptional TInt) (Default VNone),
     Field ''scans'' (TList (TModel ''Scan'')) (DefaultFactory Factory_list),
     Field ''file_type'' (TOptional TStr) (Default VNone),
     Field ''prefix'' (TOptional TStr) (Default VNone),
     Field ''filename_template'' (TOptional TStr) (Default VNone),
     Field ''path'' (TOptional TStr) (Default VNone)]"

definition CollectionSweepRef :: "field list" where
  "CollectionSweepRef =
    [Field ''target_type'' (TLiteral ''CollectionSweep'') Required]"

definition Scan :: "field list" where
  "Scan =
    [Field ''scan_position_start'' TFloat Required,
     Field ''first_image_no'' TInt Required,
     Field ''num_images'' TInt Required,
     Field ''ordinal'' TInt Required]"

definition MXProcessing :: "field list" where
  "MXProcessing = inherit Job
    [Field ''mxlims_type'' (TLiteral ''MXProcessing'') Required,
     Field ''unit_cell'' (TOptional (TModel ''UnitCell'')) (Default VNone),
     Field ''space_group_name'' (TOptional TStr) (Default VNone),
     (Field ''sample'' (TOptional (TModel ''MXSample'')) (Default VNone))\<lparr>frozen := True\<rparr>,
     Field ''input_data'' (TList (TDisc ''mxlims_type'' [''CollectionSweep'', ''MxlimsReference''])) (DefaultFactory Factory_list),
     Field ''templates'' (TList (TDisc ''mxlims_type'' [''ReflectionSet'', ''MxlimsReference''])) (DefaultFactory Factory_list),
     Field ''reference_data'' (TList (TDisc ''mxlims_type'' [''ReflectionSet'', ''MxlimsReference''])) (DefaultFactory Factory_list),
     Field ''results'' (TList (TDisc ''mxlims_type'' [''ReflectionSet'', ''MxlimsReference''])) (DefaultFactory Factory_list)]"

definition MXProcessingRef :: "field list" where
  "MXProcessingRef =
    [Field ''target_type'' (TLiteral ''MXProcessing'') Required]"

definition ReflectionStatistics :: "field list" where
  "ReflectionStatistics =
    [Field ''resolution_limits'' (TTuple [TFloat, TFloat]) Required,
     Field ''number_observations'' TInt Required,
     Field ''number_unique_observations'' TInt Required,
     Field ''quality_factors'' (TList (TModel ''QualityFactor'')) (DefaultFactory Factory_list),
     (Field ''completeness'' TFloat Required)\<lparr>ge := Some 0, le := Some 100\<rparr>,
     (Field ''chi_squared'' (TOptional TFloat) (Default VNone))\<lparr>ge := Some 0\<rparr>,
     Field ''number_rejected_reflns'' (TOptional TInt) (Default VNone),
     (Field ''redundancy'' TFloat Required)\<lparr>ge := Some 0\<rparr>,
     (Field ''redundancy_anomalous'' TFloat Required)\<lparr>ge := Some 0\<rparr>]"

definition ReflectionSet :: "field list" where
  "ReflectionSet = inherit Dataset
    [Field ''mxlims_type'' (TLiteral ''ReflectionSet'') Required,
     Field ''anisotropic_diffraction'' TBool (Default (VBool False)),
     Field ''resolution_rings_detected'' (TList (TTuple [TFloat, TFloat])) (DefaultFactory Factory_list),
     Field ''resolution_rings_excluded'' (TList (TTuple [TFloat, TFloat])) (DefaultFactory Factory_list),
     Field ''unit_cell'' (TOptional (TModel ''UnitCell'')) (Default VNone),
     Field ''space_group_name'' (TOptional TStr) (Default VNone),
     Field ''operational_resolution'' (TOptional TFloat) (Default VNone),
     Field ''B_iso_Wilson_estimate'' (TOptional TFloat) (Default VNone),
     Field ''h_index_range'' (TTuple [TInt, TInt]) Required,
     Field ''k_index_range'' (TTuple [TInt, TInt]) Required,
     Field ''l_index_range'' (TTuple [TInt, TInt]) Required,
     Field ''num_reflections'' TInt Required,
     Field ''num_unique_reflections'' TInt Required,
     Field ''aniso_B_tensor'' (TOptional (TModel ''Tensor'')) (Default VNone),
     Field ''diffraction_limits_estimated'' (TOptional (TModel ''Tensor'')) (Default VNone),
     Field ''overall_refln_statistics'' (TOptional (TModel ''ReflectionStatistics'')) (Default VNone),
     Field ''refln_shells'' (TList (TModel ''ReflectionStatistics'')) (DefaultFactory Factory_list),
     Field ''observed_criterion_sigma_F'' (TOptional TFloat) (Default VNone),
     Field ''observed_criterion_sigma_I'' (TOptional TFloat) (Default VNone),
     Field ''signal_type'' (TOptional (TEnum PdbxSignalType)) (Default VNone),
     Field ''signal_cutoff'' (TOptional TFloat) (Default VNone),
     Field ''resolution_cutoffs'' (TList (TModel ''QualityFactor'')) (DefaultFactory Factory_list),
     Field ''binning_mode'' (TOptional (TEnum ReflectionBinningMode)) (Default VNone),
     (Field ''number_bins'' (TOptional TInt) (Default VNone))\<lparr>gt := Some 0\<rparr>,
     (Field ''refln_per_bin'' (TOptional TInt) (Default VNone))\<lparr>gt := Some 0\<rparr>,
     (Field ''refln_per_bin_per_sweep'' (TOptional TInt) (Default VNone))\<lparr>gt := Some 0\<rparr>,
     Field ''file_type'' (TOptional TStr) (Default VNone),
     Field ''filename'' (TOptional TStr) (Default VNone),
     Field ''path'' (TOptional TStr) (Default VNone)]"

definition ReflectionSetRef :: "field list" where
  "ReflectionSetRef =
    [Field ''target_type'' (TLiteral ''ReflectionSet'') Required]"

definition MXSample :: "field list" where
  "MXSample = inherit PreparedSample
    [Field ''mxlims_type'' (TLiteral ''MXSample'') Required,
     Field ''macromolecule'' (TModel ''Macromolecule'') (Default VNone),
     Field ''components'' (TList (TModel ''Component'')) (DefaultFactory Factory_list),
     Field ''unit_cell'' (TOptional (TModel ''UnitCell'')) (Default VNone),
     Field ''space_group_name'' (TOptional TStr) (Default VNone),
     (Field ''radiation_sensitivity'' (TOptional TFloat) (Default VNone))\<lparr>ge := Some 0, le := Some 1\<rparr>,
     Field ''identifiers'' (TDict TStr) (DefaultFactory Factory_dict),
     Field ''jobs'' (TList (TUnion [TModel ''MXExperiment'', TModel ''MXProcessing''])) (DefaultFactory Factory_list)]"

definition MXSampleRef :: "field list" where
  "MXSampleRef =
    [Field ''target_type'' (TLiteral ''MXSample'') Required]"


text \<open>
  The classes that the two modules define. The names \<^verbatim>\<open>MxlimsObjectRef\<close> and
  \<^verbatim>\<open>MxlimsReference\<close>, which crystallography.py mentions, are defined by neither module:
  whatever binds them comes in through \<open>extra\<close>.
\<close>

definition classes :: "(string \<times> tdef) list" where
  "classes =
    [(''BaseModel'', Class BaseModel),
     (''MxlimsObject'', Class MxlimsObject),
     (''Dataset'', Class Dataset),
     (''Job'', Class Job),
     (''LogisticalSample'', Class LogisticalSample),
     (''PreparedSample'', Class PreparedSample),
     (''UnitCell'', Class UnitCell),
     (''Tensor'', Class Tensor),
     (''QualityFactor'', Class QualityFactor),
     (''Macromolecule'', Class Macromolecule),
     (''Component'', Class Component),
     (''MXExperiment'', Class MXExperiment),
     (''MXExperimentRef'', Class MXExperimentRef),
     (''CollectionSweep'', Class CollectionSweep),
     (''CollectionSweepRef'', Class CollectionSweepRef),
     (''Scan'', Class Scan),
     (''MXProcessing'', Class MXProcessing),
     (''MXProcessingRef'', Class MXProcessingRef),
     (''ReflectionStatistics'', Class ReflectionStatistics),
     (''ReflectionSet'', Class ReflectionSet),
     (''ReflectionSetRef'', Class ReflectionSetRef),
     (''MXSample'', Class MXSample),
     (''MXSampleRef'', Class MXSampleRef)]"

definition mxlims_env :: "(string \<times> tdef) list \<Rightarrow> env" where
  "mxlims_env extra = classes @ extra"

subsection \<open>Descriptions and schema extras of the fields\<close>




























section \<open>Classes that are fully defined\<close>

text \<open>
  A class can be used when every name that its declaration reaches is bound, and every
  discriminated union it reaches has members that all declare the discriminator as a
  literal, with tags that differ. Python stops loading a module at the first name that is
  not bound; the model asks of a class only what the class itself depends on.
\<close>

fun mentioned :: "ftype \<Rightarrow> string list" where
  "mentioned (TModel c) = [c]"
| "mentioned (TDisc d ns) = ns"
| "mentioned (TOptional t) = mentioned t"
| "mentioned (TList t) = mentioned t"
| "mentioned (TDict t) = mentioned t"
| "mentioned (TTuple ts) = concat (map mentioned ts)"
| "mentioned (TUnion ts) = concat (map mentioned ts)"
| "mentioned _ = []"

fun type_ok :: "env \<Rightarrow> ftype \<Rightarrow> bool" where
  "type_ok env (TDisc d ns) =
     (concat (map (members env) ns) \<noteq> []
      \<and> list_all (\<lambda>m. literal_of env d m \<noteq> None) (concat (map (members env) ns))
      \<and> distinct (map fst (tag_table env d ns)))"
| "type_ok env (TOptional t) = type_ok env t"
| "type_ok env (TList t) = type_ok env t"
| "type_ok env (TDict t) = type_ok env t"
| "type_ok env (TTuple ts) = list_all (type_ok env) ts"
| "type_ok env (TUnion ts) = (ts \<noteq> [] \<and> list_all (type_ok env) ts)"
| "type_ok env _ = True"

definition refs_of :: "tdef \<Rightarrow> string list" where
  "refs_of td =
     (case td of
        Class flds \<Rightarrow> concat (map (\<lambda>f. mentioned (ftype f)) flds)
      | Alias ns \<Rightarrow> ns)"

definition tdef_ok :: "env \<Rightarrow> tdef \<Rightarrow> bool" where
  "tdef_ok env td =
     (case td of
        Class flds \<Rightarrow> list_all (\<lambda>f. type_ok env (ftype f)) flds
      | Alias ns \<Rightarrow> True)"

function defined_from :: "env \<Rightarrow> string list \<Rightarrow> string list \<Rightarrow> bool" where
  "defined_from env [] seen = True"
| "defined_from env (c # todo) seen =
     (if c \<in> set seen then defined_from env todo seen
      else (case map_of env c of
              None \<Rightarrow> False
            | Some td \<Rightarrow> tdef_ok env td \<and> defined_from env (refs_of td @ todo) (c # seen)))"
  by pat_completeness auto

lemma unseen_decreases:
  assumes "map_of env c = Some td" and "c \<notin> set seen"
  shows "card (fst ` set env - set (c # seen)) < card (fst ` set env - set seen)"
proof -
  have mem: "c \<in> fst ` set env - set seen"
    using assms by (auto dest: map_of_SomeD intro: rev_image_eqI)
  have fin: "finite (fst ` set env - set seen)"
    by simp
  have eq: "fst ` set env - set (c # seen) = (fst ` set env - set seen) - {c}"
    by auto
  show ?thesis
    unfolding eq by (rule card_Diff1_less [OF fin mem])
qed

termination defined_from
  by (relation "measures [\<lambda>(env, todo, seen). card (fst ` set env - set seen),
                          \<lambda>(env, todo, seen). length todo]")
    (auto simp: unseen_decreases simp del: set_simps)

definition fully_defined :: "env \<Rightarrow> string \<Rightarrow> bool" where
  "fully_defined env c = defined_from env [c] []"

section \<open>Construction, attribute access, serialisation\<close>

text \<open>
  \<open>construct\<close> is the call of a class with keyword arguments, \<open>model_validate\<close> the
  reconstruction from a document, \<open>getattr\<close> the reading of an attribute. \<open>setattr\<close>
  returns the errors it raises and the instance as it is afterwards; it does not validate
  the value, as pydantic does not unless asked to. \<open>dump\<close> is the serialisation to JSON,
  read back as a document.
\<close>

definition model_validate :: "env \<Rightarrow> pylib \<Rightarrow> string \<Rightarrow> json \<Rightarrow> pyval result" where
  "model_validate env lib c j =
     (if fully_defined env c then validate env lib [] (TModel c) j
      else Inl [([], ClassNotFullyDefined)])"

definition construct :: "env \<Rightarrow> pylib \<Rightarrow> string \<Rightarrow> (string \<times> json) list \<Rightarrow> pyval result" where
  "construct env lib c kwargs = model_validate env lib c (JObj kwargs)"

definition getattr :: "pyval \<Rightarrow> string \<Rightarrow> pyval option" where
  "getattr inst n = (case inst of VModel c kvs \<Rightarrow> map_of kvs n | _ \<Rightarrow> None)"

definition model_field :: "field list \<Rightarrow> string \<Rightarrow> field option" where
  "model_field flds n = find (\<lambda>f. fname f = n) flds"

definition setattr :: "env \<Rightarrow> pyval \<Rightarrow> string \<Rightarrow> pyval \<Rightarrow> error list \<times> pyval" where
  "setattr env inst n v =
     (case inst of
        VModel c kvs \<Rightarrow>
          (case map_of env c of
             Some (Class flds) \<Rightarrow>
               (case model_field flds n of
                  Some f \<Rightarrow>
                    if frozen f then ([([LKey n], FrozenField)], inst)
                    else ([], VModel c (AList.update n v kvs))
                | None \<Rightarrow> ([([LKey n], NoSuchField)], inst))
           | _ \<Rightarrow> ([([], ClassNotFullyDefined)], inst))
      | _ \<Rightarrow> ([([], ModelType)], inst))"


section \<open>Values that conform to a declared type\<close>

text \<open>
  \<open>has_type env lib t v\<close>: the value \<open>v\<close> is of the declared type \<open>t\<close>. An instance
  conforms to its class when it has the fields of the class, in order, each with a value
  of the field's type and within its bounds. The members of a plain union must be told
  apart by a literal field.
\<close>

definition told_apart :: "env \<Rightarrow> ftype list \<Rightarrow> bool" where
  "told_apart env ts =
     list_ex (\<lambda>d.
        list_all (\<lambda>t. case t of TModel c \<Rightarrow> literal_of env d c \<noteq> None | _ \<Rightarrow> False) ts
        \<and> distinct (map (\<lambda>t. case t of TModel c \<Rightarrow> literal_of env d c | _ \<Rightarrow> None) ts))
       (case ts of
          TModel c # _ \<Rightarrow>
            (case map_of env c of Some (Class flds) \<Rightarrow> map fname flds | _ \<Rightarrow> [])
        | _ \<Rightarrow> [])"





section \<open>Schema export\<close>





type_synonym files = "(string \<times> json) list"

fun export_schemas :: "(string \<Rightarrow> json result) \<Rightarrow> string list \<Rightarrow> files \<Rightarrow> error list \<times> files" where
  "export_schemas schema_of [] fs = ([], fs)"
| "export_schemas schema_of (tag # rest) fs =
     (case schema_of tag of
        Inl e \<Rightarrow> (e, fs)
      | Inr schema \<Rightarrow>
          export_schemas schema_of rest (AList.update (tag @ ''_schema.json'') schema fs))"


text \<open>
  For concrete runs: a library whose identifiers are all zeros and whose parsers take a
  string as it is, and a binding of \<^verbatim>\<open>MxlimsReference\<close> to a class that carries
  the discriminator and an identifier.
\<close>

definition plain_lib :: pylib where
  "plain_lib =
     \<lparr>uuid4_hex = (\<lambda>_. ''00000000000000000000000000000000''),
      parse_datetime = (\<lambda>j. case j of JStr s \<Rightarrow> Some s | _ \<Rightarrow> None),
      parse_uuid = (\<lambda>j. case j of JStr s \<Rightarrow> Some s | _ \<Rightarrow> None)\<rparr>"

definition example_reference :: "(string \<times> tdef) list" where
  "example_reference =
     [(''MxlimsReference'',
        Class [Field ''mxlims_type'' (TLiteral ''MxlimsReference'') Required,
               Field ''uuid'' TStr Required])]"

section \<open>Results of the fields of a model\<close>

text \<open>
  \<open>field_result\<close> is the outcome of one field of a model for given arguments, and
  \<open>error_fields\<close> lists the fields that the errors of a construction name.
\<close>

definition errors_of :: "'a result \<Rightarrow> error list" where
  "errors_of r = (case r of Inl e \<Rightarrow> e | Inr _ \<Rightarrow> [])"

definition supplied :: "env \<Rightarrow> pylib \<Rightarrow> loc \<Rightarrow> field \<Rightarrow> json \<Rightarrow> pyval result" where
  "supplied env lib loc f x =
     (case validate env lib (loc @ [LKey (fname f)]) (ftype f) x of
        Inl e \<Rightarrow> Inl e
      | Inr v \<Rightarrow> check_bounds f (loc @ [LKey (fname f)]) v)"

definition field_result :: "env \<Rightarrow> pylib \<Rightarrow> loc \<Rightarrow> (string \<times> json) list \<Rightarrow> field \<Rightarrow> pyval result" where
  "field_result env lib loc kvs f =
     (case map_of kvs (fname f) of
        None \<Rightarrow> use_default lib (loc @ [LKey (fname f)]) f
      | Some x \<Rightarrow> supplied env lib loc f x)"

definition located :: "loc \<Rightarrow> error list \<Rightarrow> bool" where
  "located loc es = (es \<noteq> [] \<and> (\<forall>e\<in>set es. \<exists>rest. fst e = loc @ rest))"



section \<open>Validation of a model, field by field\<close>

lemma errors_of_simps [simp]: "errors_of (Inl e) = e" "errors_of (Inr v) = []"
  by (simp_all add: errors_of_def)

lemma errors_of_Nil: "\<not> isl r \<Longrightarrow> errors_of r = []"
  by (cases r) simp_all

lemma collect_eq:
  "collect rs = (if \<forall>r\<in>set rs. \<not> isl r then Inr (map projr rs) else Inl (concat (map errors_of rs)))"
  by (induction rs) (auto split: sum.splits simp: errors_of_Nil)

declare validate.simps(14) [simp del]

lemma field_result_unfold:
  "field_result env lib loc kvs f =
     (case map_of kvs (fname f) of
        None \<Rightarrow> use_default lib (loc @ [LKey (fname f)]) f
      | Some x \<Rightarrow>
          (case validate env lib (loc @ [LKey (fname f)]) (ftype f) x of
             Inl e \<Rightarrow> Inl e
           | Inr v \<Rightarrow> check_bounds f (loc @ [LKey (fname f)]) v))"
  by (simp add: field_result_def supplied_def split: option.splits)

lemma validate_model:
  "map_of env c = Some (Class flds) \<Longrightarrow>
   validate env lib loc (TModel c) (JObj kvs) =
     map_sum id (VModel c)
       (collect (map (\<lambda>f. map_sum id (Pair (fname f)) (field_result env lib loc kvs f)) flds))"
  by (simp add: field_result_unfold validate.simps(14))

lemma isl_map_sum_id [simp]: "isl (map_sum id g r) = isl r"
  by (cases r) simp_all

lemma errors_of_map_sum_id [simp]: "errors_of (map_sum id g r) = errors_of r"
  by (cases r) simp_all

lemma projr_map_sum_id: "\<not> isl r \<Longrightarrow> projr (map_sum id g r) = g (projr r)"
  by (cases r) simp_all

lemma validate_model_eq:
  assumes "map_of env c = Some (Class flds)"
  shows "validate env lib loc (TModel c) (JObj kvs) =
     (if \<forall>f\<in>set flds. \<not> isl (field_result env lib loc kvs f)
      then Inr (VModel c (map (\<lambda>f. (fname f, projr (field_result env lib loc kvs f))) flds))
      else Inl (concat (map (\<lambda>f. errors_of (field_result env lib loc kvs f)) flds)))"
  by (subst validate_model [OF assms])
    (simp add: collect_eq o_def projr_map_sum_id cong: map_cong)

lemma map_of_fields:
  "map_of (map (\<lambda>f. (k f, v f)) xs) n = map_option v (find (\<lambda>f. k f = n) xs)"
  by (induction xs) auto

lemma construct_eq:
  assumes "map_of env c = Some (Class flds)" and "fully_defined env c"
  shows "construct env lib c kwargs =
     (if \<forall>f\<in>set flds. \<not> isl (field_result env lib [] kwargs f)
      then Inr (VModel c (map (\<lambda>f. (fname f, projr (field_result env lib [] kwargs f))) flds))
      else Inl (concat (map (\<lambda>f. errors_of (field_result env lib [] kwargs f)) flds)))"
  using assms(2) by (simp add: construct_def model_validate_def validate_model_eq [OF assms(1)])

lemma construct_getattr:
  assumes "map_of env c = Some (Class flds)" and "construct env lib c kwargs = Inr inst"
  shows "getattr inst n = map_option (\<lambda>f. projr (field_result env lib [] kwargs f)) (model_field flds n)"
  using assms(2) unfolding construct_def model_validate_def validate_model_eq [OF assms(1)]
  by (auto simp: getattr_def model_field_def map_of_fields split: if_splits)

lemma field_result_override:
  "field_result env lib loc ((n, x) # kvs) g =
     (if fname g = n then supplied env lib loc g x else field_result env lib loc kvs g)"
  by (simp add: field_result_def)

lemma env_CollectionSweep: "map_of (mxlims_env extra) ''CollectionSweep'' = Some (Class CollectionSweep)"
  by (simp add: mxlims_env_def classes_def)

lemma env_Job: "map_of (mxlims_env extra) ''Job'' = Some (Class Job)"
  by (simp add: mxlims_env_def classes_def)

lemma env_MXSample: "map_of (mxlims_env extra) ''MXSample'' = Some (Class MXSample)"
  by (simp add: mxlims_env_def classes_def)

lemma env_MXExperiment: "map_of (mxlims_env extra) ''MXExperiment'' = Some (Class MXExperiment)"
  by (simp add: mxlims_env_def classes_def)

lemma fully_defined_CollectionSweep: "fully_defined (mxlims_env extra) ''CollectionSweep''"
  by code_simp

lemma fully_defined_Job: "fully_defined (mxlims_env extra) ''Job''"
  by code_simp

lemma not_isl_Inr: "\<not> isl r \<Longrightarrow> \<exists>v. r = Inr v"
  by (cases r) simp_all

lemma concat_map_filter:
  "\<forall>x\<in>set xs. \<not> P x \<longrightarrow> h x = [] \<Longrightarrow> concat (map h xs) = concat (map h (filter P xs))"
  by (induction xs) auto

lemma construct_override:
  assumes env: "map_of env c = Some (Class flds)"
    and ok: "construct env lib c kwargs = Inr v"
    and only: "filter (\<lambda>g. fname g = n) flds = [f]"
  shows "isl (construct env lib c ((n, x) # kwargs)) = isl (supplied env lib [] f x)"
    and "errors_of (construct env lib c ((n, x) # kwargs)) = errors_of (supplied env lib [] f x)"
proof -
  have fd: "fully_defined env c"
    using ok by (auto simp: construct_def model_validate_def split: if_splits)
  have others: "\<not> isl (field_result env lib [] kwargs g)" if "g \<in> set flds" for g
  proof (rule ccontr)
    assume "\<not> \<not> isl (field_result env lib [] kwargs g)"
    with that have "\<not> (\<forall>f\<in>set flds. \<not> isl (field_result env lib [] kwargs f))"
      by blast
    with ok show False
      unfolding construct_eq [OF env fd] by simp
  qed
  have "f \<in> set (filter (\<lambda>g. fname g = n) flds)"
    unfolding only by simp
  then have mem: "f \<in> set flds" and nm: "fname f = n"
    by simp_all
  have uniq: "g = f" if "g \<in> set flds" "fname g = n" for g
  proof -
    have "g \<in> set (filter (\<lambda>g. fname g = n) flds)" using that by simp
    then show ?thesis unfolding only by simp
  qed
  define r where "r = field_result env lib [] ((n, x) # kwargs)"
  define r0 where "r0 = supplied env lib [] f x"
  have r_f: "r f = r0"
    unfolding r_def r0_def using nm by (simp add: field_result_override)
  have r_other: "\<not> isl (r g)" if "g \<in> set flds" "fname g \<noteq> n" for g
    unfolding r_def using that others by (simp add: field_result_override)
  have all_iff: "(\<forall>g\<in>set flds. \<not> isl (r g)) \<longleftrightarrow> \<not> isl r0"
  proof
    assume "\<forall>g\<in>set flds. \<not> isl (r g)"
    with mem have "\<not> isl (r f)" by blast
    then show "\<not> isl r0" unfolding r_f .
  next
    assume a: "\<not> isl r0"
    show "\<forall>g\<in>set flds. \<not> isl (r g)"
    proof
      fix g assume g: "g \<in> set flds"
      show "\<not> isl (r g)"
      proof (cases "fname g = n")
        case True
        with g have "g = f" by (rule uniq)
        then show ?thesis using a r_f by simp
      next
        case False
        with g show ?thesis by (rule r_other)
      qed
    qed
  qed
  have ceq: "construct env lib c ((n, x) # kwargs) =
     (if \<forall>g\<in>set flds. \<not> isl (r g)
      then Inr (VModel c (map (\<lambda>g. (fname g, projr (r g))) flds))
      else Inl (concat (map (\<lambda>g. errors_of (r g)) flds)))"
    unfolding r_def by (rule construct_eq [OF env fd])
  have "concat (map (\<lambda>g. errors_of (r g)) flds)
      = concat (map (\<lambda>g. errors_of (r g)) (filter (\<lambda>g. fname g = n) flds))"
  proof (rule concat_map_filter, intro ballI impI)
    fix g assume "g \<in> set flds" "fname g \<noteq> n"
    then have "\<not> isl (r g)" by (rule r_other)
    then show "errors_of (r g) = []" by (rule errors_of_Nil)
  qed
  also have "\<dots> = errors_of r0"
    unfolding only using r_f by simp
  finally have cc: "concat (map (\<lambda>g. errors_of (r g)) flds) = errors_of r0" .
  show "isl (construct env lib c ((n, x) # kwargs)) = isl (supplied env lib [] f x)"
    unfolding ceq all_iff r0_def [symmetric] by simp
  show "errors_of (construct env lib c ((n, x) # kwargs)) = errors_of (supplied env lib [] f x)"
    unfolding ceq all_iff cc r0_def [symmetric] by (simp add: errors_of_Nil)
qed

lemma not_supplied_default:
  "map_of kwargs n = None \<Longrightarrow>
   field_result env lib loc kwargs (Field n t (Default d)) = Inr d"
  by (simp add: field_result_def use_default_def Field_def)

lemma construct_validate:
  "fully_defined env c \<Longrightarrow> construct env lib c kwargs = validate env lib [] (TModel c) (JObj kwargs)"
  by (simp add: construct_def model_validate_def)

lemma case_result_ex:
  "(case r of Inl _ \<Rightarrow> False | Inr v \<Rightarrow> P v) \<Longrightarrow> \<exists>v. r = Inr v \<and> P v"
  by (cases r) simp_all

lemma env_MXSampleRef: "map_of (mxlims_env extra) ''MXSampleRef'' = Some (Class MXSampleRef)"
  by (simp add: mxlims_env_def classes_def)

lemma model_field_distinct:
  "distinct (map fname flds) \<Longrightarrow> f \<in> set flds \<Longrightarrow> model_field flds (fname f) = Some f"
  unfolding model_field_def by (induction flds) (auto simp: rev_image_eqI)

lemma classes_distinct: "distinct (map fst classes)"
  by code_simp

lemma classes_distinct_fields:
  "list_all (\<lambda>(c, td). case td of Class flds \<Rightarrow> distinct (map fname flds) | Alias ns \<Rightarrow> True) classes"
  by code_simp

lemma env_lookup:
  assumes "(c, td) \<in> set classes"
  shows "map_of (mxlims_env extra) c = Some td"
proof -
  have "map_of classes c = Some td"
    using classes_distinct assms by (rule map_of_is_SomeI)
  then show ?thesis
    by (simp add: mxlims_env_def map_add_Some_iff)
qed

lemma class_fields_distinct:
  assumes "(c, Class flds) \<in> set classes"
  shows "distinct (map fname flds)"
  using classes_distinct_fields assms by (auto simp: list_all_iff)

section \<open>Where errors are reported\<close>

lemma located_single [simp]: "located loc [(loc, k)]"
  by (simp add: located_def)


lemma located_append: "located loc es \<Longrightarrow> located loc fs \<Longrightarrow> located loc (es @ fs)"
  by (auto simp: located_def)













lemma fully_defined_example_MXSample: "fully_defined (mxlims_env example_reference) ''MXSample''"
  by code_simp

lemma fully_defined_example_MXExperiment: "fully_defined (mxlims_env example_reference) ''MXExperiment''"
  by code_simp


section \<open>Validating a serialised value\<close>

















section \<open>Dispatch on the discriminator\<close>

lemma union_fields_of_MXExperiment:
  "map (\<lambda>f. (fname f, ftype f))
     (filter (\<lambda>f. fname f \<in> set [''templates'', ''input_data'', ''reference_data'', ''results'']) MXExperiment)
   = [(''templates'', TList (TDisc ''mxlims_type'' [''CollectionSweep'', ''MxlimsReference''])),
      (''input_data'', TList (TModel ''Dataset'')),
      (''reference_data'', TList (TDisc ''mxlims_type'' [''ReflectionSet'', ''MxlimsReference''])),
      (''results'', TList (TDisc ''mxlims_type'' [''CollectionSweep'', ''MxlimsReference'']))]"
  by code_simp

lemma union_fields_of_MXProcessing:
  "map (\<lambda>f. (fname f, ftype f))
     (filter (\<lambda>f. fname f \<in> set [''templates'', ''input_data'', ''reference_data'', ''results'']) MXProcessing)
   = [(''templates'', TList (TDisc ''mxlims_type'' [''ReflectionSet'', ''MxlimsReference''])),
      (''input_data'', TList (TDisc ''mxlims_type'' [''CollectionSweep'', ''MxlimsReference''])),
      (''reference_data'', TList (TDisc ''mxlims_type'' [''ReflectionSet'', ''MxlimsReference''])),
      (''results'', TList (TDisc ''mxlims_type'' [''ReflectionSet'', ''MxlimsReference'']))]"
  by code_simp












section \<open>Job status\<close>

lemma Job_job_status:
  "filter (\<lambda>f. fname f = ''job_status'') Job
     = [Field ''job_status'' (TOptional (TEnum JobStatus)) (Default VNone)]"
  by code_simp

lemma job_status_supplied:
  "isl (supplied env lib loc (Field ''job_status'' (TOptional (TEnum JobStatus)) (Default VNone)) (JStr s))
     \<longleftrightarrow> s \<notin> {''Template'', ''Ready'', ''Running'', ''Completed'', CHR 0x09 # ''Failed'', ''Aborted''}"
  by (auto simp: supplied_def Field_def JobStatus_def check_bounds_def number_of_def)

lemma Job_without_arguments: "\<not> isl (construct (mxlims_env extra) lib ''Job'' [])"
  by code_simp

text \<open>
  Claim C2: the \<open>job_status\<close> of a Job accepts exactly the six strings Template, Ready,
  Running, Completed, Failed, Aborted. In core.py the member \<open>Failed\<close> of \<open>JobStatus\<close> has
  the value TAB followed by \<open>Failed\<close>, so the string \<open>Failed\<close> is refused as an invalid enum
  member, and the accepted strings are the other five and the one that starts with TAB.
\<close>

theorem job_status_Failed_rejected:
  "construct (mxlims_env extra) lib ''Job'' [(''job_status'', JStr ''Failed'')]
     = Inl [([LKey ''job_status''], EnumError)]
   \<and> (\<forall>s. isl (construct (mxlims_env extra) lib ''Job'' [(''job_status'', JStr s)])
          \<longleftrightarrow> s \<notin> {''Template'', ''Ready'', ''Running'', ''Completed'',
                     CHR 0x09 # ''Failed'', ''Aborted''})"
proof
  show "construct (mxlims_env extra) lib ''Job'' [(''job_status'', JStr ''Failed'')]
     = Inl [([LKey ''job_status''], EnumError)]"
    by code_simp
  obtain v where ok: "construct (mxlims_env extra) lib ''Job'' [] = Inr v"
    using not_isl_Inr [OF Job_without_arguments] by blast
  show "\<forall>s. isl (construct (mxlims_env extra) lib ''Job'' [(''job_status'', JStr s)])
          \<longleftrightarrow> s \<notin> {''Template'', ''Ready'', ''Running'', ''Completed'',
                     CHR 0x09 # ''Failed'', ''Aborted''}"
    unfolding construct_override(1) [OF env_Job ok Job_job_status] job_status_supplied
    by simp
qed

section \<open>Reference records\<close>

lemma tag_only_class:
  assumes env: "map_of env r = Some (Class [Field n (TLiteral t) Required])"
    and fd: "fully_defined env r"
  shows "construct env lib r kwargs =
     (case map_of kwargs n of
        None \<Rightarrow> Inl [([LKey n], Missing)]
      | Some x \<Rightarrow>
          if x = JStr t then Inr (VModel r [(n, VStr t)])
          else Inl [([LKey n], LiteralError)])"
  unfolding construct_eq [OF env fd]
  by (simp add: field_result_def supplied_def use_default_def Field_def check_bounds_def
      number_of_def split: option.splits)

lemma env_references:
  "map_of (mxlims_env extra) ''MXExperimentRef'' = Some (Class [Field ''target_type'' (TLiteral ''MXExperiment'') Required])"
  "map_of (mxlims_env extra) ''CollectionSweepRef'' = Some (Class [Field ''target_type'' (TLiteral ''CollectionSweep'') Required])"
  "map_of (mxlims_env extra) ''MXProcessingRef'' = Some (Class [Field ''target_type'' (TLiteral ''MXProcessing'') Required])"
  "map_of (mxlims_env extra) ''ReflectionSetRef'' = Some (Class [Field ''target_type'' (TLiteral ''ReflectionSet'') Required])"
  "map_of (mxlims_env extra) ''MXSampleRef'' = Some (Class [Field ''target_type'' (TLiteral ''MXSample'') Required])"
  by (simp_all add: mxlims_env_def classes_def MXExperimentRef_def CollectionSweepRef_def
      MXProcessingRef_def ReflectionSetRef_def MXSampleRef_def)

lemma fully_defined_references:
  "fully_defined (mxlims_env extra) ''MXExperimentRef''"
  "fully_defined (mxlims_env extra) ''CollectionSweepRef''"
  "fully_defined (mxlims_env extra) ''MXProcessingRef''"
  "fully_defined (mxlims_env extra) ''ReflectionSetRef''"
  "fully_defined (mxlims_env extra) ''MXSampleRef''"
  by code_simp+

text \<open>
  Claim C3, as stated: a reference built from \<open>{"target_type": "CollectionSweep", "uuid": id}\<close>
  retains the identifier. The construction succeeds, but \<open>CollectionSweepRef\<close> declares
  \<open>target_type\<close> and nothing else, so the \<open>uuid\<close> key is ignored and the record holds the
  tag alone.
\<close>

theorem reference_drops_uuid:
  "construct (mxlims_env []) plain_lib ''CollectionSweepRef''
     [(''target_type'', JStr ''CollectionSweep''), (''uuid'', JStr ''0123456789abcdef0123456789abcdef'')]
   = Inr (VModel ''CollectionSweepRef'' [(''target_type'', VStr ''CollectionSweep'')])"
  by code_simp

text \<open>
  Claim C3, amended: each of the five reference classes declares exactly one field, the
  required tag \<open>target_type\<close>, whose only accepted value is the name of the referenced
  type. A construction succeeds exactly when \<open>target_type\<close> is supplied with that name, and
  the record then consists of the tag; every other key of the input, an identifier too, is
  dropped.
\<close>

theorem reference_records:
  assumes "(r, t) \<in> set [(''MXExperimentRef'', ''MXExperiment''),
                         (''CollectionSweepRef'', ''CollectionSweep''),
                         (''MXProcessingRef'', ''MXProcessing''),
                         (''ReflectionSetRef'', ''ReflectionSet''),
                         (''MXSampleRef'', ''MXSample'')]"
  shows "map_of (mxlims_env extra) r = Some (Class [Field ''target_type'' (TLiteral t) Required])
       \<and> construct (mxlims_env extra) lib r kwargs =
           (case map_of kwargs ''target_type'' of
              None \<Rightarrow> Inl [([LKey ''target_type''], Missing)]
            | Some x \<Rightarrow>
                if x = JStr t then Inr (VModel r [(''target_type'', VStr t)])
                else Inl [([LKey ''target_type''], LiteralError)])"
proof -
  have e: "map_of (mxlims_env extra) r = Some (Class [Field ''target_type'' (TLiteral t) Required])"
    using assms env_references [of extra] by auto
  have "fully_defined (mxlims_env extra) r"
    using assms fully_defined_references [of extra] by auto
  from tag_only_class [OF e this] e show ?thesis
    by simp
qed

theorem reference_records_witness:
  "(''CollectionSweepRef'', ''CollectionSweep'')
     \<in> set [(''MXExperimentRef'', ''MXExperiment''),
            (''CollectionSweepRef'', ''CollectionSweep''),
            (''MXProcessingRef'', ''MXProcessing''),
            (''ReflectionSetRef'', ''ReflectionSet''),
            (''MXSampleRef'', ''MXSample'')]
   \<and> construct (mxlims_env []) plain_lib ''CollectionSweepRef''
        [(''target_type'', JStr ''CollectionSweep''), (''uuid'', JStr ''0123456789abcdef0123456789abcdef'')]
      = Inr (VModel ''CollectionSweepRef'' [(''target_type'', VStr ''CollectionSweep'')])
   \<and> construct (mxlims_env []) plain_lib ''CollectionSweepRef''
        [(''target_type'', JStr ''ReflectionSet'')]
      = Inl [([LKey ''target_type''], LiteralError)]"
proof -
  have m: "(''CollectionSweepRef'', ''CollectionSweep'')
     \<in> set [(''MXExperimentRef'', ''MXExperiment''),
            (''CollectionSweepRef'', ''CollectionSweep''),
            (''MXProcessingRef'', ''MXProcessing''),
            (''ReflectionSetRef'', ''ReflectionSet''),
            (''MXSampleRef'', ''MXSample'')]"
    by simp
  show ?thesis
    using m reference_records [OF m, of "[]" plain_lib]
    by simp
qed

section \<open>Frozen fields\<close>

lemma Job_in_classes: "(''Job'', Class Job) \<in> set classes"
  by (simp add: classes_def)

lemma Job_uuid: "(Field ''uuid'' TStr (DefaultFactory Factory_uuid4_hex))\<lparr>frozen := True\<rparr> \<in> set Job"
  by code_simp

lemma Job_status: "Field ''job_status'' (TOptional (TEnum JobStatus)) (Default VNone) \<in> set Job"
  by code_simp

lemma Job_with_uuid:
  "\<not> isl (construct (mxlims_env []) plain_lib ''Job'' [(''uuid'', JStr ''0123456789abcdef0123456789abcdef'')])"
  by code_simp

text \<open>
  Claim C4: for every class of the two modules and every field \<open>f\<close> of it, a value supplied
  for \<open>f\<close> at construction is validated and stored; when \<open>f\<close> is frozen, every later
  assignment fails with a frozen-field error and leaves the instance as it was; when \<open>f\<close>
  is not frozen, the assignment succeeds and the instance holds the new value.
\<close>

theorem frozen_fields:
  assumes "(c, Class flds) \<in> set classes" and "f \<in> set flds"
  shows "(frozen f \<longrightarrow>
            setattr (mxlims_env extra) (VModel c kvs) (fname f) v
              = ([([LKey (fname f)], FrozenField)], VModel c kvs))
       \<and> (\<not> frozen f \<longrightarrow>
            setattr (mxlims_env extra) (VModel c kvs) (fname f) v
              = ([], VModel c (AList.update (fname f) v kvs))
            \<and> getattr (VModel c (AList.update (fname f) v kvs)) (fname f) = Some v)
       \<and> (\<forall>kwargs x inst.
            construct (mxlims_env extra) lib c kwargs = Inr inst \<and> map_of kwargs (fname f) = Some x \<longrightarrow>
            (\<exists>w. supplied (mxlims_env extra) lib [] f x = Inr w \<and> getattr inst (fname f) = Some w))"
proof -
  have env: "map_of (mxlims_env extra) c = Some (Class flds)"
    using assms(1) by (rule env_lookup)
  have mf: "model_field flds (fname f) = Some f"
    using class_fields_distinct [OF assms(1)] assms(2) by (rule model_field_distinct)
  have set_frozen: "frozen f \<Longrightarrow>
      setattr (mxlims_env extra) (VModel c kvs) (fname f) v
        = ([([LKey (fname f)], FrozenField)], VModel c kvs)"
    by (simp add: setattr_def env mf)
  have set_free: "\<not> frozen f \<Longrightarrow>
      setattr (mxlims_env extra) (VModel c kvs) (fname f) v
        = ([], VModel c (AList.update (fname f) v kvs))"
    by (simp add: setattr_def env mf)
  have get: "getattr (VModel c (AList.update (fname f) v kvs)) (fname f) = Some v"
    by (simp add: getattr_def update_conv')
  have built: "\<exists>w. supplied (mxlims_env extra) lib [] f x = Inr w \<and> getattr inst (fname f) = Some w"
    if ok: "construct (mxlims_env extra) lib c kwargs = Inr inst"
      and given: "map_of kwargs (fname f) = Some x" for kwargs x inst
  proof -
    have fd: "fully_defined (mxlims_env extra) c"
      using ok by (auto simp: construct_def model_validate_def split: if_splits)
    have "\<not> isl (field_result (mxlims_env extra) lib [] kwargs f)"
    proof
      assume "isl (field_result (mxlims_env extra) lib [] kwargs f)"
      with assms(2) have "\<not> (\<forall>g\<in>set flds. \<not> isl (field_result (mxlims_env extra) lib [] kwargs g))"
        by blast
      with ok show False
        unfolding construct_eq [OF env fd] by simp
    qed
    then obtain w where w: "field_result (mxlims_env extra) lib [] kwargs f = Inr w"
      using not_isl_Inr by blast
    have "supplied (mxlims_env extra) lib [] f x = Inr w"
      using w given by (simp add: field_result_def)
    moreover have "getattr inst (fname f) = Some w"
      unfolding construct_getattr [OF env ok] mf using w by simp
    ultimately show ?thesis by blast
  qed
  show ?thesis
    using set_frozen set_free get built by blast
qed

theorem frozen_fields_witness:
  "(''Job'', Class Job) \<in> set classes
   \<and> (Field ''uuid'' TStr (DefaultFactory Factory_uuid4_hex))\<lparr>frozen := True\<rparr> \<in> set Job
   \<and> Field ''job_status'' (TOptional (TEnum JobStatus)) (Default VNone) \<in> set Job
   \<and> setattr (mxlims_env []) (VModel ''Job'' [(''uuid'', VStr ''0123''), (''job_status'', VNone)])
        ''uuid'' (VStr ''4567'')
      = ([([LKey ''uuid''], FrozenField)], VModel ''Job'' [(''uuid'', VStr ''0123''), (''job_status'', VNone)])
   \<and> setattr (mxlims_env []) (VModel ''Job'' [(''uuid'', VStr ''0123''), (''job_status'', VNone)])
        ''job_status'' (VEnum ''Ready'' ''Ready'')
      = ([], VModel ''Job'' [(''uuid'', VStr ''0123''), (''job_status'', VEnum ''Ready'' ''Ready'')])
   \<and> (\<exists>inst. construct (mxlims_env []) plain_lib ''Job''
                 [(''uuid'', JStr ''0123456789abcdef0123456789abcdef'')] = Inr inst
          \<and> getattr inst ''uuid'' = Some (VStr ''0123456789abcdef0123456789abcdef''))"
proof -
  obtain inst where inst: "construct (mxlims_env []) plain_lib ''Job''
                 [(''uuid'', JStr ''0123456789abcdef0123456789abcdef'')] = Inr inst"
    using not_isl_Inr [OF Job_with_uuid] by blast
  have sup: "supplied (mxlims_env []) plain_lib []
      ((Field ''uuid'' TStr (DefaultFactory Factory_uuid4_hex))\<lparr>frozen := True\<rparr>)
      (JStr ''0123456789abcdef0123456789abcdef'') = Inr (VStr ''0123456789abcdef0123456789abcdef'')"
    by (simp add: supplied_def Field_def check_bounds_def number_of_def)
  note u = frozen_fields [OF Job_in_classes Job_uuid, where extra = "[]" and lib = plain_lib
      and kvs = "[(''uuid'', VStr ''0123''), (''job_status'', VNone)]" and v = "VStr ''4567''"]
  note s = frozen_fields [OF Job_in_classes Job_status, where extra = "[]" and lib = plain_lib
      and kvs = "[(''uuid'', VStr ''0123''), (''job_status'', VNone)]" and v = "VEnum ''Ready'' ''Ready''"]
  have given: "map_of [(''uuid'', JStr ''0123456789abcdef0123456789abcdef'')]
      (fname ((Field ''uuid'' TStr (DefaultFactory Factory_uuid4_hex))\<lparr>frozen := True\<rparr>))
      = Some (JStr ''0123456789abcdef0123456789abcdef'')"
    by (simp add: Field_def)
  have "getattr inst ''uuid'' = Some (VStr ''0123456789abcdef0123456789abcdef'')"
    using u [THEN conjunct2, THEN conjunct2, rule_format, OF conjI, OF inst given] sup
    by (simp add: Field_def)
  moreover have "setattr (mxlims_env []) (VModel ''Job'' [(''uuid'', VStr ''0123''), (''job_status'', VNone)])
        ''uuid'' (VStr ''4567'')
      = ([([LKey ''uuid''], FrozenField)], VModel ''Job'' [(''uuid'', VStr ''0123''), (''job_status'', VNone)])"
    using u by (simp add: Field_def)
  moreover have "setattr (mxlims_env []) (VModel ''Job'' [(''uuid'', VStr ''0123''), (''job_status'', VNone)])
        ''job_status'' (VEnum ''Ready'' ''Ready'')
      = ([], VModel ''Job'' [(''uuid'', VStr ''0123''), (''job_status'', VEnum ''Ready'' ''Ready'')])"
    using s by (simp add: Field_def)
  ultimately show ?thesis
    using Job_in_classes Job_uuid Job_status inst by blast
qed

section \<open>Every violation is reported\<close>








section \<open>Serialise, then reconstruct\<close>

lemma jobs_told_apart:
  "told_apart (mxlims_env extra) [TModel ''MXExperiment'', TModel ''MXProcessing'']"
  by code_simp

lemma env_ReflectionStatistics:
  "map_of (mxlims_env extra) ''ReflectionStatistics'' = Some (Class ReflectionStatistics)"
  by (simp add: mxlims_env_def classes_def)




lemma statistics_constructed:
  "construct (mxlims_env []) plain_lib ''ReflectionStatistics''
     [(''resolution_limits'', JArr [JInt 50, JNum 1.5]), (''number_observations'', JInt 1000),
      (''number_unique_observations'', JNum 500),
      (''quality_factors'', JArr [JObj [(''type'', JStr ''R(merge)''), (''value'', JNum 0.05)]]),
      (''completeness'', JNum 99.5), (''redundancy'', JInt 2), (''redundancy_anomalous'', JInt 1)]
   = Inr (VModel ''ReflectionStatistics''
       [(''resolution_limits'', VTuple [VFloat 50, VFloat 1.5]),
        (''number_observations'', VInt 1000),
        (''number_unique_observations'', VInt 500),
        (''quality_factors'',
           VList [VModel ''QualityFactor''
                    [(''type'', VEnum ''R_merge'' ''R(merge)''), (''value'', VFloat 0.05)]]),
        (''completeness'', VFloat 99.5), (''chi_squared'', VNone),
        (''number_rejected_reflns'', VNone), (''redundancy'', VFloat 2),
        (''redundancy_anomalous'', VFloat 1)])"
  by code_simp



section \<open>The CollectionSweep scenario\<close>

lemma CollectionSweep_with_tag:
  "(case construct (mxlims_env extra) lib ''CollectionSweep''
     [(''mxlims_type'', JStr ''CollectionSweep''),
      (''scan_axis'', JStr ''Omega''),
      (''axis_positions_start'', JObj [(''Omega'', JNum 0)]),
      (''axis_positions_end'', JObj [(''Omega'', JNum 180)]),
      (''image_width'', JNum 0.1)] of Inl _ \<Rightarrow> False
    | Inr v \<Rightarrow> getattr v ''scans'' = Some (VList [])
         \<and> getattr v ''scan_axis'' = Some (VStr ''Omega'')
         \<and> getattr v ''axis_positions_start'' = Some (VDict [(''Omega'', VFloat 0)])
         \<and> getattr v ''axis_positions_end'' = Some (VDict [(''Omega'', VFloat 180)])
         \<and> getattr v ''image_width'' = Some (VFloat 0.1))"
  by code_simp

text \<open>
  Claim C7, as stated: a CollectionSweep built from \<open>scan_axis\<close>, \<open>axis_positions_start\<close>,
  \<open>axis_positions_end\<close> and \<open>image_width\<close> alone succeeds. It does not: the class declares
  \<open>mxlims_type\<close> without a default, so the construction reports that field as missing.
\<close>

theorem CollectionSweep_scenario_without_tag:
  "construct (mxlims_env []) plain_lib ''CollectionSweep''
     [(''scan_axis'', JStr ''Omega''),
      (''axis_positions_start'', JObj [(''Omega'', JNum 0)]),
      (''axis_positions_end'', JObj [(''Omega'', JNum 180)]),
      (''image_width'', JNum 0.1)]
   = Inl [([LKey ''mxlims_type''], Missing)]"
  by code_simp

text \<open>
  Claim C7, amended: when \<open>mxlims_type = "CollectionSweep"\<close> is supplied with the four
  values and no \<open>scans\<close>, the construction succeeds, the record holds the four values, and
  its \<open>scans\<close> is the empty list.
\<close>

theorem CollectionSweep_scenario:
  "\<exists>v. construct (mxlims_env extra) lib ''CollectionSweep''
     [(''mxlims_type'', JStr ''CollectionSweep''),
      (''scan_axis'', JStr ''Omega''),
      (''axis_positions_start'', JObj [(''Omega'', JNum 0)]),
      (''axis_positions_end'', JObj [(''Omega'', JNum 180)]),
      (''image_width'', JNum 0.1)] = Inr v
    \<and> getattr v ''scans'' = Some (VList [])
    \<and> getattr v ''scan_axis'' = Some (VStr ''Omega'')
    \<and> getattr v ''axis_positions_start'' = Some (VDict [(''Omega'', VFloat 0)])
    \<and> getattr v ''axis_positions_end'' = Some (VDict [(''Omega'', VFloat 180)])
    \<and> getattr v ''image_width'' = Some (VFloat 0.1)"
  by (rule case_result_ex [OF CollectionSweep_with_tag])

section \<open>The range of transmission\<close>

lemma CollectionSweep_transmission:
  "filter (\<lambda>f. fname f = ''transmission'') CollectionSweep
     = [(Field ''transmission'' (TOptional TFloat) (Default VNone))\<lparr>ge := Some 0, le := Some 100\<rparr>]"
  by code_simp

lemma transmission_result:
  "supplied env lib loc
      ((Field ''transmission'' (TOptional TFloat) (Default VNone))\<lparr>ge := Some 0, le := Some 100\<rparr>) (JNum x)
    = (if 100 < x then Inl [(loc @ [LKey ''transmission''], LessThanEqual)]
       else if x < 0 then Inl [(loc @ [LKey ''transmission''], GreaterThanEqual)]
       else Inr (VFloat x))"
  by (simp add: supplied_def Field_def check_bounds_def number_of_def violates_def)

lemma transmission_result_int:
  "supplied env lib loc
      ((Field ''transmission'' (TOptional TFloat) (Default VNone))\<lparr>ge := Some 0, le := Some 100\<rparr>) (JInt n)
    = (if 100 < n then Inl [(loc @ [LKey ''transmission''], LessThanEqual)]
       else if n < 0 then Inl [(loc @ [LKey ''transmission''], GreaterThanEqual)]
       else Inr (VFloat (of_int n)))"
  by (simp add: supplied_def Field_def check_bounds_def number_of_def violates_def)

text \<open>
  Claim C8: \<open>CollectionSweep.transmission\<close> is bounded by 0 and 100 inclusive. Added to any
  arguments that construct a CollectionSweep, \<open>transmission = -0.001\<close> fails (not greater
  than or equal to 0) and \<open>transmission = 100.001\<close> fails (not less than or equal to 100),
  while \<open>transmission = 0\<close> and \<open>transmission = 100\<close> succeed; a float is refused exactly
  when it lies outside the closed interval.
\<close>

theorem transmission_range:
  assumes "construct (mxlims_env extra) lib ''CollectionSweep'' kwargs = Inr v"
  shows "errors_of (construct (mxlims_env extra) lib ''CollectionSweep''
             ((''transmission'', JNum (- 0.001)) # kwargs))
           = [([LKey ''transmission''], GreaterThanEqual)]
       \<and> errors_of (construct (mxlims_env extra) lib ''CollectionSweep''
             ((''transmission'', JNum 100.001) # kwargs))
           = [([LKey ''transmission''], LessThanEqual)]
       \<and> \<not> isl (construct (mxlims_env extra) lib ''CollectionSweep''
             ((''transmission'', JInt 0) # kwargs))
       \<and> \<not> isl (construct (mxlims_env extra) lib ''CollectionSweep''
             ((''transmission'', JInt 100) # kwargs))
       \<and> (\<forall>x. isl (construct (mxlims_env extra) lib ''CollectionSweep''
             ((''transmission'', JNum x) # kwargs)) \<longleftrightarrow> x < 0 \<or> 100 < x)"
proof -
  note ov = construct_override [OF env_CollectionSweep assms CollectionSweep_transmission]
  show ?thesis
    by (simp add: ov transmission_result transmission_result_int)
qed

theorem transmission_range_witness:
  "errors_of (construct (mxlims_env []) plain_lib ''CollectionSweep''
      [(''transmission'', JNum (- 0.001)), (''mxlims_type'', JStr ''CollectionSweep''),
       (''scan_axis'', JStr ''Omega'')])
     = [([LKey ''transmission''], GreaterThanEqual)]
   \<and> \<not> isl (construct (mxlims_env []) plain_lib ''CollectionSweep''
      [(''transmission'', JInt 100), (''mxlims_type'', JStr ''CollectionSweep''),
       (''scan_axis'', JStr ''Omega'')])"
proof -
  have "\<not> isl (construct (mxlims_env []) plain_lib ''CollectionSweep''
      [(''mxlims_type'', JStr ''CollectionSweep''), (''scan_axis'', JStr ''Omega'')])"
    by code_simp
  then have "\<exists>v. construct (mxlims_env []) plain_lib ''CollectionSweep''
      [(''mxlims_type'', JStr ''CollectionSweep''), (''scan_axis'', JStr ''Omega'')] = Inr v"
    by (rule not_isl_Inr)
  then obtain v where "construct (mxlims_env []) plain_lib ''CollectionSweep''
      [(''mxlims_type'', JStr ''CollectionSweep''), (''scan_axis'', JStr ''Omega'')] = Inr v" ..
  from transmission_range [OF this] show ?thesis by simp
qed

section \<open>The schema export\<close>

lemma export_all:
  "\<forall>c\<in>set cs. \<not> isl (schema_of c) \<Longrightarrow>
   export_schemas schema_of cs fs
     = ([], foldl (\<lambda>fs c. AList.update (c @ ''_schema.json'') (projr (schema_of c)) fs) fs cs)"
proof (induction cs arbitrary: fs)
  case Nil
  show ?case by simp
next
  case (Cons c cs)
  then obtain s where s: "schema_of c = Inr s"
    using not_isl_Inr [of "schema_of c"] by auto
  with Cons show ?case
    by simp
qed













section \<open>Defaults that are not validated\<close>

lemma MXSample_macromolecule:
  "model_field MXSample ''macromolecule'' = Some (Field ''macromolecule'' (TModel ''Macromolecule'') (Default VNone))"
  by code_simp

lemma MXExperiment_experiment_strategy:
  "model_field MXExperiment ''experiment_strategy'' = Some (Field ''experiment_strategy'' TStr (Default VNone))"
  by code_simp

lemma MXSample_minimal:
  "(case validate (mxlims_env extra) lib [] (TModel ''MXSample'') (JObj [(''mxlims_type'', JStr ''MXSample'')])
    of Inl _ \<Rightarrow> False | Inr v \<Rightarrow> getattr v ''macromolecule'' = Some VNone)"
  by code_simp

lemma MXExperiment_minimal:
  "(case validate (mxlims_env extra) lib [] (TModel ''MXExperiment'') (JObj [(''mxlims_type'', JStr ''MXExperiment'')])
    of Inl _ \<Rightarrow> False | Inr v \<Rightarrow> getattr v ''experiment_strategy'' = Some VNone)"
  by code_simp

text \<open>
  Claim C10: a field of a non-optional type with default \<open>None\<close> is not mandatory.
  \<open>MXSample.macromolecule\<close> has type \<open>Macromolecule\<close> and \<open>MXExperiment.experiment_strategy\<close>
  has type \<open>str\<close>; both default to \<open>None\<close>. Wherever the two classes are fully defined,
  constructing them with the type tag alone succeeds and leaves the field \<open>None\<close>, and so
  does every successful construction that does not supply the field.
\<close>

theorem None_default_in_non_optional_field:
  assumes "fully_defined (mxlims_env extra) ''MXSample''"
    and "fully_defined (mxlims_env extra) ''MXExperiment''"
  shows "(\<exists>v. construct (mxlims_env extra) lib ''MXSample'' [(''mxlims_type'', JStr ''MXSample'')] = Inr v
            \<and> getattr v ''macromolecule'' = Some VNone)
       \<and> (\<exists>v. construct (mxlims_env extra) lib ''MXExperiment'' [(''mxlims_type'', JStr ''MXExperiment'')] = Inr v
            \<and> getattr v ''experiment_strategy'' = Some VNone)
       \<and> (\<forall>kwargs v. map_of kwargs ''macromolecule'' = None
              \<and> construct (mxlims_env extra) lib ''MXSample'' kwargs = Inr v
            \<longrightarrow> getattr v ''macromolecule'' = Some VNone)
       \<and> (\<forall>kwargs v. map_of kwargs ''experiment_strategy'' = None
              \<and> construct (mxlims_env extra) lib ''MXExperiment'' kwargs = Inr v
            \<longrightarrow> getattr v ''experiment_strategy'' = Some VNone)
       \<and> map ftype (filter (\<lambda>f. fname f = ''macromolecule'') MXSample) = [TModel ''Macromolecule'']
       \<and> map ftype (filter (\<lambda>f. fname f = ''experiment_strategy'') MXExperiment) = [TStr]"
proof (intro conjI allI impI)
  show "\<exists>v. construct (mxlims_env extra) lib ''MXSample'' [(''mxlims_type'', JStr ''MXSample'')] = Inr v
            \<and> getattr v ''macromolecule'' = Some VNone"
    unfolding construct_validate [OF assms(1)] by (rule case_result_ex [OF MXSample_minimal])
  show "\<exists>v. construct (mxlims_env extra) lib ''MXExperiment'' [(''mxlims_type'', JStr ''MXExperiment'')] = Inr v
            \<and> getattr v ''experiment_strategy'' = Some VNone"
    unfolding construct_validate [OF assms(2)] by (rule case_result_ex [OF MXExperiment_minimal])
next
  fix kwargs v
  assume "map_of kwargs ''macromolecule'' = None
              \<and> construct (mxlims_env extra) lib ''MXSample'' kwargs = Inr v"
  then have n: "map_of kwargs ''macromolecule'' = None"
    and c: "construct (mxlims_env extra) lib ''MXSample'' kwargs = Inr v"
    by simp_all
  show "getattr v ''macromolecule'' = Some VNone"
    unfolding construct_getattr [OF env_MXSample c] MXSample_macromolecule
    by (simp add: not_supplied_default [OF n])
next
  fix kwargs v
  assume "map_of kwargs ''experiment_strategy'' = None
              \<and> construct (mxlims_env extra) lib ''MXExperiment'' kwargs = Inr v"
  then have n: "map_of kwargs ''experiment_strategy'' = None"
    and c: "construct (mxlims_env extra) lib ''MXExperiment'' kwargs = Inr v"
    by simp_all
  show "getattr v ''experiment_strategy'' = Some VNone"
    unfolding construct_getattr [OF env_MXExperiment c] MXExperiment_experiment_strategy
    by (simp add: not_supplied_default [OF n])
next
  show "map ftype (filter (\<lambda>f. fname f = ''macromolecule'') MXSample) = [TModel ''Macromolecule'']"
    by code_simp
  show "map ftype (filter (\<lambda>f. fname f = ''experiment_strategy'') MXExperiment) = [TStr]"
    by code_simp
qed

theorem None_default_in_non_optional_field_witness:
  "fully_defined (mxlims_env example_reference) ''MXSample''
   \<and> fully_defined (mxlims_env example_reference) ''MXExperiment''
   \<and> (\<exists>v. construct (mxlims_env example_reference) plain_lib ''MXSample''
             [(''mxlims_type'', JStr ''MXSample'')] = Inr v
          \<and> getattr v ''macromolecule'' = Some VNone)
   \<and> (\<exists>v. construct (mxlims_env example_reference) plain_lib ''MXExperiment''
             [(''mxlims_type'', JStr ''MXExperiment'')] = Inr v
          \<and> getattr v ''experiment_strategy'' = Some VNone)"
  using None_default_in_non_optional_field
    [OF fully_defined_example_MXSample fully_defined_example_MXExperiment, of plain_lib]
    fully_defined_example_MXSample fully_defined_example_MXExperiment
  by blast

end
